theory Spec2Isabelle
  imports Complex_Main "HOL-Library.Word"
begin

unbundle bit_operations_syntax

section \<open>Errors\<close>

text \<open>
  Every exception the modelled code can raise is a value. A function that can raise returns
  \<open>error + 'a\<close>, with \<open>Inl\<close> for the exception. \<open>Raised\<close> stands for an exception of an
  external collaborator (configuration loading, the conversion pool, the file system),
  named by the collaborator.
\<close>

datatype error =
    InvalidConfigError
  | EncodingError
  | DecodingError
  | KeyError
  | IndexError
  | ValueError
  | TypeError
  | ZeroDivisionError
  | AssertionError
  | NameError string
  | UnboundLocalError string
  | BadParameter
  | Raised string

definition bind_err :: "error + 'a \<Rightarrow> ('a \<Rightarrow> error + 'b) \<Rightarrow> error + 'b" where
  "bind_err m f = (case m of Inl e \<Rightarrow> Inl e | Inr x \<Rightarrow> f x)"

text \<open>Running a fallible step over a list, in order, stopping at the first exception.\<close>

fun map_err :: "('a \<Rightarrow> error + 'b) \<Rightarrow> 'a list \<Rightarrow> error + 'b list" where
  "map_err f [] = Inr []"
| "map_err f (x # xs) =
     (case f x of
        Inl e \<Rightarrow> Inl e
      | Inr y \<Rightarrow> (case map_err f xs of Inl e \<Rightarrow> Inl e | Inr ys \<Rightarrow> Inr (y # ys)))"

section \<open>Event vocabulary\<close>

text \<open>
  The four event kinds, in the canonical order in which their id ranges are laid out.
  The source reads the kind as \<open>event.type\<close> and the sub-parameter as \<open>event.value\<close>.
\<close>

datatype event_type = NOTE_ON | NOTE_OFF | TIME_SHIFT | VELOCITY_CHANGE

datatype event = Event (etype: event_type) (evalue: "int option")

text \<open>A Python \<open>range(start, stop)\<close>: the half-open interval of ids of one kind.\<close>

type_synonym py_range = "int \<times> int"

definition start :: "py_range \<Rightarrow> int" where
  "start r = fst r"

definition stop :: "py_range \<Rightarrow> int" where
  "stop r = snd r"

definition in_range :: "int \<Rightarrow> py_range \<Rightarrow> bool" where
  "in_range i r = (start r \<le> i \<and> i < stop r)"

type_synonym event_value_ranges = "event_type \<rightharpoonup> int \<times> int"
type_synonym event_dimensions = "event_type \<rightharpoonup> int"
type_synonym event_ranges = "event_type \<rightharpoonup> py_range"

definition kind_order :: "event_type list" where
  "kind_order = [NOTE_ON, NOTE_OFF, TIME_SHIFT, VELOCITY_CHANGE]"

text \<open>
  Modelled from the spec: \<open>EventSequence._compute_event_value_ranges\<close> of
  \<open>composer.dataset.sequence\<close> is missing. The spec gives the inclusive bounds of each kind's
  value (pitch 0 to 127, a duration index and a velocity bin index, each from 0 and below
  the kind's bin count) and the failure with \<open>InvalidConfigError\<close> when a parameter is
  non-positive or \<open>time_step_increment > max_time_steps\<close>.
\<close>

definition compute_event_value_ranges :: "int \<Rightarrow> int \<Rightarrow> int \<Rightarrow> error + event_value_ranges" where
  "compute_event_value_ranges time_step_increment max_time_steps velocity_bins =
     (if time_step_increment \<le> 0 \<or> max_time_steps \<le> 0 \<or> velocity_bins \<le> 0
         \<or> time_step_increment > max_time_steps
      then Inl InvalidConfigError
      else Inr [NOTE_ON \<mapsto> (0, 127), NOTE_OFF \<mapsto> (0, 127),
                TIME_SHIFT \<mapsto> (0, max_time_steps - 1),
                VELOCITY_CHANGE \<mapsto> (0, velocity_bins - 1)])"

text \<open>
  Modelled from the spec: \<open>EventSequence._compute_event_dimensions\<close> is missing. The
  dimension of a kind is the number of values its bounds admit: 128, 128,
  \<open>max_time_steps\<close> and \<open>velocity_bins\<close>.
\<close>

definition compute_event_dimensions :: "event_value_ranges \<Rightarrow> event_dimensions" where
  "compute_event_dimensions value_ranges =
     (\<lambda>k. case value_ranges k of None \<Rightarrow> None | Some (lo, hi) \<Rightarrow> Some (hi - lo + 1))"

text \<open>
  Modelled from the spec: \<open>EventSequence._compute_event_ranges\<close> is missing. Each kind gets
  the next contiguous slice of the flat id space, in the canonical kind order.
\<close>

fun layout :: "event_type list \<Rightarrow> int \<Rightarrow> event_dimensions \<Rightarrow> event_ranges" where
  "layout [] offset dims = Map.empty"
| "layout (k # ks) offset dims =
     (case dims k of
        None \<Rightarrow> layout ks offset dims
      | Some d \<Rightarrow> (layout ks (offset + d) dims)(k \<mapsto> (offset, offset + d)))"

definition compute_event_ranges :: "event_dimensions \<Rightarrow> event_ranges" where
  "compute_event_ranges dims = layout kind_order 0 dims"

text \<open>
  Modelled from the spec: \<open>OneHotEncodedEventSequence.get_one_hot_size\<close> is missing. The
  one-hot width is the end of the id space, the largest \<open>stop\<close> of a range.
\<close>

definition get_one_hot_size :: "event_ranges \<Rightarrow> int" where
  "get_one_hot_size ranges =
     fold (\<lambda>k acc. case ranges k of None \<Rightarrow> acc | Some r \<Rightarrow> max acc (stop r)) kind_order 0"

section \<open>Event codec\<close>

text \<open>Python's \<open>event.value or 0\<close>: \<open>None\<close> and \<open>0\<close> are falsy and give \<open>0\<close>.\<close>

definition value_or_zero :: "int option \<Rightarrow> int" where
  "value_or_zero v = (case v of None \<Rightarrow> 0 | Some x \<Rightarrow> (if x = 0 then 0 else x))"

text \<open>
  \<open>_encode_event_as_int\<close> of \<open>create_music_rnn_dataset\<close> (the spec's \<open>event_to_id\<close>):
  \<^verbatim>\<open>return event_ranges[event.type].start + (event.value or 0)\<close>
  The dictionary lookup raises \<open>KeyError\<close> for a kind without a range; there is no other
  check.
\<close>

definition encode_event_as_int :: "event \<Rightarrow> event_ranges \<Rightarrow> error + int" where
  "encode_event_as_int ev ranges =
     (case ranges (etype ev) of
        None \<Rightarrow> Inl KeyError
      | Some r \<Rightarrow> Inr (start r + value_or_zero (evalue ev)))"

text \<open>
  Modelled from the spec: \<open>IntegerEncodedEventSequence.id_to_event\<close> is missing. It fails
  with \<open>DecodingError\<close> for an id outside \<open>[0, total_dimension)\<close>, finds the kind whose
  interval holds the id by a linear search in the canonical order, and rebuilds
  \<open>value = id - ranges[kind].start\<close>. Every kind of this vocabulary has a sub-parameter, so
  the value is never omitted.
\<close>

fun find_kind :: "event_type list \<Rightarrow> int \<Rightarrow> event_ranges \<Rightarrow> (event_type \<times> py_range) option" where
  "find_kind [] i ranges = None"
| "find_kind (k # ks) i ranges =
     (case ranges k of
        None \<Rightarrow> find_kind ks i ranges
      | Some r \<Rightarrow> (if in_range i r then Some (k, r) else find_kind ks i ranges))"

definition id_to_event :: "int \<Rightarrow> event_ranges \<Rightarrow> event_value_ranges \<Rightarrow> error + event" where
  "id_to_event i ranges value_ranges =
     (if i < 0 \<or> get_one_hot_size ranges \<le> i then Inl DecodingError
      else case find_kind kind_order i ranges of
             None \<Rightarrow> Inl DecodingError
           | Some (k, r) \<Rightarrow> Inr (Event k (Some (i - start r))))"

text \<open>The vector of width \<open>n\<close> that is zero everywhere except for a one at index \<open>i\<close>.\<close>

definition one_hot :: "int \<Rightarrow> int \<Rightarrow> int list" where
  "one_hot n i = (replicate (nat n) 0)[nat i := 1]"

text \<open>
  Modelled from the spec: \<open>OneHotEncodedEventSequence.event_as_one_hot_vector\<close> is missing.
  The vector has length \<open>total_dimension\<close> and a single one at the event's id; an id that
  is no index of the vector is an \<open>EncodingError\<close>.
\<close>

definition event_as_one_hot_vector :: "event \<Rightarrow> event_ranges \<Rightarrow> event_value_ranges \<Rightarrow> error + int list" where
  "event_as_one_hot_vector ev ranges value_ranges =
     (case encode_event_as_int ev ranges of
        Inl e \<Rightarrow> Inl e
      | Inr i \<Rightarrow> (if 0 \<le> i \<and> i < get_one_hot_size ranges
                 then Inr (one_hot (get_one_hot_size ranges) i)
                 else Inl EncodingError))"

text \<open>\<open>argmax\<close>: the index of the first maximal entry (of a non-empty vector).\<close>

definition list_max :: "int list \<Rightarrow> int" where
  "list_max v = fold max (tl v) (hd v)"

definition argmax :: "int list \<Rightarrow> nat" where
  "argmax v = length (takeWhile (\<lambda>x. x < list_max v) v)"

text \<open>
  Modelled from the spec: \<open>OneHotEncodedEventSequence.one_hot_vector_as_event\<close> is missing.
  \<open>id = argmax(vector)\<close>, then \<open>id_to_event\<close>; the empty vector has no maximum and is a
  \<open>DecodingError\<close>.
\<close>

definition one_hot_vector_as_event :: "int list \<Rightarrow> event_ranges \<Rightarrow> event_value_ranges \<Rightarrow> error + event" where
  "one_hot_vector_as_event v ranges value_ranges =
     (if v = [] then Inl DecodingError
      else id_to_event (int (argmax v)) ranges value_ranges)"

text \<open>
  A valid event under given value ranges: its kind has value bounds and its value is
  present and within them (the data model's invariant \<open>0 \<le> value < bin_count(kind)\<close>).
\<close>

definition valid_event :: "event \<Rightarrow> event_value_ranges \<Rightarrow> bool" where
  "valid_event ev value_ranges =
     (case value_ranges (etype ev) of
        None \<Rightarrow> False
      | Some (lo, hi) \<Rightarrow> (case evalue ev of None \<Rightarrow> False | Some v \<Rightarrow> lo \<le> v \<and> v \<le> hi))"

section \<open>An example configuration\<close>

text \<open>
  The configuration of the spec's concrete scenarios: \<open>time_step_increment = 10\<close>,
  \<open>max_time_steps = 1000\<close>, \<open>velocity_bins = 32\<close>, with its value ranges and id ranges.
\<close>

definition example_value_ranges :: event_value_ranges where
  "example_value_ranges = [NOTE_ON \<mapsto> (0, 127), NOTE_OFF \<mapsto> (0, 127),
                            TIME_SHIFT \<mapsto> (0, 999), VELOCITY_CHANGE \<mapsto> (0, 31)]"

definition example_ranges :: event_ranges where
  "example_ranges = compute_event_ranges (compute_event_dimensions example_value_ranges)"

section \<open>Python list operations\<close>

text \<open>\<open>a // b\<close> on integers: floor division, \<open>ZeroDivisionError\<close> for a zero divisor.\<close>

definition py_floordiv :: "int \<Rightarrow> int \<Rightarrow> error + int" where
  "py_floordiv a b = (if b = 0 then Inl ZeroDivisionError else Inr (a div b))"

text \<open>
  \<open>xs[a:b]\<close>: a negative bound counts from the end, and both bounds are clamped to the
  list.
\<close>

definition slice_bound :: "int \<Rightarrow> int \<Rightarrow> int" where
  "slice_bound n i = (if i < 0 then max 0 (n + i) else min i n)"

definition py_slice :: "'a list \<Rightarrow> int \<Rightarrow> int \<Rightarrow> 'a list" where
  "py_slice xs a b =
     (let n = int (length xs); lo = slice_bound n a; hi = slice_bound n b
      in take (nat (hi - lo)) (drop (nat lo) xs))"

text \<open>\<open>xs[i]\<close>: a negative index counts from the end; out of range is \<open>IndexError\<close>.\<close>

definition py_index :: "'a list \<Rightarrow> int \<Rightarrow> error + 'a" where
  "py_index xs i =
     (if 0 \<le> i \<and> i < int (length xs) then Inr (xs ! nat i)
      else if i < 0 \<and> - int (length xs) \<le> i then Inr (xs ! nat (int (length xs) + i))
      else Inl IndexError)"

text \<open>
  \<open>np.asarray(xs).reshape((w, 1))\<close>: a column of \<open>w\<close> rows of one entry each. NumPy
  raises \<open>ValueError\<close> when the sizes differ; \<open>w = -1\<close> asks it to infer the row count.
\<close>

definition reshape_column :: "int \<Rightarrow> int list \<Rightarrow> error + int list list" where
  "reshape_column w xs =
     (if w = -1 \<or> (0 \<le> w \<and> int (length xs) = w)
      then Inr (map (\<lambda>v. [v]) xs)
      else Inl ValueError)"

section \<open>Windowing extractor\<close>

text \<open>
  An encoded file as \<open>event_ids_from_file\<close> returns it: the id array with the value ranges
  and id ranges of its header. A file system maps paths to encoded files.
\<close>

type_synonym encoded_file = "int list \<times> event_value_ranges \<times> event_ranges"
type_synonym file_system = "string \<rightharpoonup> encoded_file"

text \<open>
  Modelled from the spec: \<open>IntegerEncodedEventSequence.event_ids_from_file\<close> is missing.
  It reads the integer-id sequence of one persisted sample together with the
  \<open>(value_ranges, ranges)\<close> its header reconstructs; a path without a readable file raises.
\<close>

definition event_ids_from_file :: "file_system \<Rightarrow> string \<Rightarrow> error + encoded_file" where
  "event_ids_from_file fs filepath =
     (case fs filepath of None \<Rightarrow> Inl (Raised ''FileNotFoundError'') | Some f \<Rightarrow> Inr f)"

text \<open>
  One round of the loop of \<open>_get_sequences_from_file\<close>, for loop index \<open>i\<close>:
  \<^verbatim>\<open>
  start, end = i * extract_events_count, extract_events_count * (i + 1)
  input_events = event_ids[start:end-1]
  x = np.asarray(input_events).reshape((window_size, 1))
  event = sequence.IntegerEncodedEventSequence.id_to_event(event_ids[end - 1], event_ranges, event_value_ranges)
  y = np.asarray(sequence.OneHotEncodedEventSequence.event_as_one_hot_vector(event, event_ranges, event_value_ranges))
  yield x, y
  \<close>
\<close>

type_synonym training_tuple = "int list list \<times> int list"

definition extract_sequence ::
  "int list \<Rightarrow> event_value_ranges \<Rightarrow> event_ranges \<Rightarrow> int \<Rightarrow> int \<Rightarrow> error + training_tuple" where
  "extract_sequence event_ids value_ranges ranges window_size i =
     (let extract_events_count = window_size + 1;
          start_idx = i * extract_events_count;
          end_idx = extract_events_count * (i + 1);
          input_events = py_slice event_ids start_idx (end_idx - 1)
      in case reshape_column window_size input_events of
           Inl e \<Rightarrow> Inl e
         | Inr x \<Rightarrow>
             (case py_index event_ids (end_idx - 1) of
                Inl e \<Rightarrow> Inl e
              | Inr last_id \<Rightarrow>
                  (case id_to_event last_id ranges value_ranges of
                     Inl e \<Rightarrow> Inl e
                   | Inr ev \<Rightarrow>
                       (case event_as_one_hot_vector ev ranges value_ranges of
                          Inl e \<Rightarrow> Inl e
                        | Inr y \<Rightarrow> Inr (x, y)))))"

text \<open>
  \<open>_get_sequences_from_file(filepath, window_size)\<close>, run to its end as
  \<open>list(_get_sequences_from_file(...))\<close> does: the tuples in the order they are yielded,
  or the exception that stops the generator.
  \<^verbatim>\<open>
  extract_events_count = window_size + 1
  sequence_count = len(event_ids) // extract_events_count
  for i in range(sequence_count): ...
  \<close>
  \<open>range\<close> of a count that is not positive is empty.
\<close>

definition get_sequences_from_file ::
  "file_system \<Rightarrow> string \<Rightarrow> int \<Rightarrow> error + training_tuple list" where
  "get_sequences_from_file fs filepath window_size =
     (case event_ids_from_file fs filepath of
        Inl e \<Rightarrow> Inl e
      | Inr (event_ids, value_ranges, ranges) \<Rightarrow>
          (let extract_events_count = window_size + 1
           in case py_floordiv (int (length event_ids)) extract_events_count of
                Inl e \<Rightarrow> Inl e
              | Inr sequence_count \<Rightarrow>
                  map_err (\<lambda>i. extract_sequence event_ids value_ranges ranges window_size (int i))
                          [0 ..< nat sequence_count]))"




definition valid_ids :: "event_ranges \<Rightarrow> int list \<Rightarrow> bool" where
  "valid_ids ranges ids = list_all (\<lambda>v. 0 \<le> v \<and> v < get_one_hot_size ranges) ids"

text \<open>The chunk structure the spec describes for a stream and a window size.\<close>

definition chunk_input :: "int list \<Rightarrow> nat \<Rightarrow> nat \<Rightarrow> int list" where
  "chunk_input ids w i = take w (drop (i * (w + 1)) ids)"

definition chunk_label :: "int list \<Rightarrow> nat \<Rightarrow> nat \<Rightarrow> int" where
  "chunk_label ids w i = ids ! (i * (w + 1) + w)"

section \<open>The dataset loader\<close>

text \<open>
  Modelled from the spec: \<open>EventSequence.from_file\<close> and \<open>to_one_hot_encoding\<close> are
  missing. \<open>from_file(path)\<close> gives the event sequence of a persisted sample, decoding each
  id with the ranges of the file; the one-hot encoding encodes each event and has
  \<open>one_hot_size = get_one_hot_size(ranges)\<close>.
\<close>

definition event_sequence_from_file ::
  "file_system \<Rightarrow> string \<Rightarrow> error + (event list \<times> event_value_ranges \<times> event_ranges)" where
  "event_sequence_from_file fs filepath =
     (case event_ids_from_file fs filepath of
        Inl e \<Rightarrow> Inl e
      | Inr (event_ids, value_ranges, ranges) \<Rightarrow>
          (case map_err (\<lambda>i. id_to_event i ranges value_ranges) event_ids of
             Inl e \<Rightarrow> Inl e
           | Inr events \<Rightarrow> Inr (events, value_ranges, ranges)))"

definition to_one_hot_encoding ::
  "event list \<times> event_value_ranges \<times> event_ranges \<Rightarrow> error + (int list list \<times> int)" where
  "to_one_hot_encoding s =
     (case s of (events, value_ranges, ranges) \<Rightarrow>
        (case map_err (\<lambda>ev. event_as_one_hot_vector ev ranges value_ranges) events of
           Inl e \<Rightarrow> Inl e
         | Inr vectors \<Rightarrow> Inr (vectors, get_one_hot_size ranges)))"

text \<open>
  A \<open>tf.data.Dataset\<close> as the loader builds it: \<open>Dataset.from_generator\<close> with the
  generator's arguments and the declared output shapes \<open>((window_size,
  input_event_dimensions), (output_event_dimensions,))\<close>, and \<open>prefetch\<close> on top. The
  generator is not run when the dataset is built.
\<close>

datatype tf_dataset =
    From_generator "string list" int "(int \<times> int) \<times> int"
  | Prefetch tf_dataset int

text \<open>
  \<open>create_music_rnn_dataset(filepaths, batch_size, window_size, use_generator,
  show_loading_progress_bar, prefetch_buffer_size)\<close>, which the model layer exposes as
  \<open>load_dataset\<close> and whose result \<open>get_dataset\<close> unpacks as \<open>dataset, _ = ...\<close>.
  \<^verbatim>\<open>
  input_event_dimensions = 1
  output_event_dimensions = sequence.EventSequence.from_file(filepaths[0]).to_one_hot_encoding().one_hot_size
  if use_generator:
      filepaths = [str(path) for path in filepaths]
      dataset = tf.data.Dataset.from_generator(_generator, ...)
  else:
      _loader_func = lambda filepath: list(_get_sequences_from_file(filepath, window_size))
      data = [_loader_func(filepath) for filepath in filepaths]
  if use_generator:
      dataset = dataset.prefetch(prefetch_buffer_size)
  return None
  \<close>
  Python's \<open>None\<close> is \<open>None\<close>; a returned pair would be \<open>Some (dataset, dimensions)\<close>. The
  progress-bar flag has no effect on the result and is left out; \<open>batch_size\<close> is a
  parameter the body never reads.
\<close>

definition create_music_rnn_dataset ::
  "file_system \<Rightarrow> string list \<Rightarrow> int \<Rightarrow> int \<Rightarrow> bool \<Rightarrow> int \<Rightarrow> error + (tf_dataset \<times> int) option" where
  "create_music_rnn_dataset fs filepaths batch_size window_size use_generator prefetch_buffer_size =
     (let input_event_dimensions = 1 in
      case py_index filepaths 0 of
        Inl e \<Rightarrow> Inl e
      | Inr first_path \<Rightarrow>
          (case bind_err (event_sequence_from_file fs first_path) to_one_hot_encoding of
             Inl e \<Rightarrow> Inl e
           | Inr (vectors, output_event_dimensions) \<Rightarrow>
               (if use_generator
                then (let dataset = From_generator filepaths window_size
                                      ((window_size, input_event_dimensions), output_event_dimensions);
                          dataset = Prefetch dataset prefetch_buffer_size
                      in Inr None)
                else (case map_err (\<lambda>filepath. get_sequences_from_file fs filepath window_size) filepaths of
                        Inl e \<Rightarrow> Inl e
                      | Inr data \<Rightarrow> Inr None))))"

text \<open>An example file system with one encoded sample of five ids.\<close>

definition example_fs :: file_system where
  "example_fs = [''train/a.seq'' \<mapsto> ([60, 188, 256, 1256, 61], example_value_ranges, example_ranges)]"

section \<open>Configuration and dynamically typed values\<close>

text \<open>
  The values a YAML configuration can hold and Python passes around untyped: integers,
  decimals (a rational stands for the float), booleans and lists.
\<close>

datatype py_value = PInt int | PFloat rat | PBool bool | PList "py_value list"

text \<open>
  A \<open>composer.config.ConfigInstance\<close>: the path it was loaded from and the entries of its
  \<open>dataset\<close>, \<open>model\<close> and \<open>train\<close> sections that the command-line interface reads.
  \<open>lstm_layer_sizes\<close> and \<open>lstm_dropout_probability\<close> are a scalar or a list, as the
  docstring of \<open>MusicRNN.__init__\<close> allows.
\<close>

record config =
  cfg_filepath :: string
  dataset_time_step_increment :: int
  dataset_max_time_steps :: int
  dataset_velocity_bins :: int
  model_window_size :: int
  model_lstm_layers_count :: int
  model_lstm_layer_sizes :: py_value
  model_lstm_dropout_probability :: py_value
  model_use_batch_normalization :: bool
  train_batch_size :: int
  train_learning_rate :: rat

text \<open>
  \<open>get_event_sequence_ranges(config)\<close> and \<open>get_model_event_dimensions(config)\<close> of the
  command-line interface, over the spec-modelled vocabulary functions.
\<close>

definition get_event_sequence_ranges ::
  "config \<Rightarrow> error + (event_value_ranges \<times> event_dimensions \<times> event_ranges)" where
  "get_event_sequence_ranges cfg =
     (case compute_event_value_ranges (dataset_time_step_increment cfg)
             (dataset_max_time_steps cfg) (dataset_velocity_bins cfg) of
        Inl e \<Rightarrow> Inl e
      | Inr value_ranges \<Rightarrow>
          (let dims = compute_event_dimensions value_ranges;
               ranges = compute_event_ranges dims
           in Inr (value_ranges, dims, ranges)))"

definition get_model_event_dimensions :: "config \<Rightarrow> error + int" where
  "get_model_event_dimensions cfg =
     (case get_event_sequence_ranges cfg of
        Inl e \<Rightarrow> Inl e
      | Inr (value_ranges, dims, ranges) \<Rightarrow> Inr (get_one_hot_size ranges))"

section \<open>The MusicRNN constructor\<close>

text \<open>Python and NumPy primitives the constructor uses, on dynamically typed values.\<close>

definition np_isscalar :: "py_value \<Rightarrow> bool" where
  "np_isscalar v = (case v of PList xs \<Rightarrow> False | _ \<Rightarrow> True)"

text \<open>\<open>operator.index\<close>: what \<open>range\<close> and an array shape accept as an integer.\<close>

definition as_index :: "py_value \<Rightarrow> error + int" where
  "as_index v =
     (case v of
        PInt n \<Rightarrow> Inr n
      | PBool b \<Rightarrow> Inr (if b then 1 else 0)
      | _ \<Rightarrow> Inl TypeError)"

text \<open>\<open>len(v) == c\<close> for a list \<open>v\<close>: an integer compared with a value of any type.\<close>

definition len_equals :: "py_value list \<Rightarrow> py_value \<Rightarrow> bool" where
  "len_equals xs c =
     (case c of
        PInt n \<Rightarrow> int (length xs) = n
      | PBool b \<Rightarrow> int (length xs) = (if b then 1 else 0)
      | PFloat q \<Rightarrow> of_int (int (length xs)) = q
      | PList ys \<Rightarrow> False)"

text \<open>
  \<open>np.full(shape, fill_value)\<close>: an array of copies of the fill value; the shape is an
  integer or a list of integers, none negative.
\<close>

definition np_full :: "py_value \<Rightarrow> py_value \<Rightarrow> error + py_value" where
  "np_full shape fill_value =
     (case shape of
        PList dims \<Rightarrow>
          (case map_err as_index dims of
             Inl e \<Rightarrow> Inl e
           | Inr ns \<Rightarrow>
               (if list_ex (\<lambda>n. n < 0) ns then Inl ValueError
                else Inr (foldr (\<lambda>n acc. PList (replicate (nat n) acc)) ns fill_value)))
      | _ \<Rightarrow>
          (case as_index shape of
             Inl e \<Rightarrow> Inl e
           | Inr n \<Rightarrow>
               (if n < 0 then Inl ValueError
                else Inr (PList (replicate (nat n) fill_value)))))"

definition truthy :: "py_value \<Rightarrow> bool" where
  "truthy v =
     (case v of
        PInt n \<Rightarrow> n \<noteq> 0
      | PFloat q \<Rightarrow> q \<noteq> 0
      | PBool b \<Rightarrow> b
      | PList xs \<Rightarrow> xs \<noteq> [])"

definition item :: "py_value \<Rightarrow> int \<Rightarrow> error + py_value" where
  "item v i = (case v of PList xs \<Rightarrow> py_index xs i | _ \<Rightarrow> Inl TypeError)"

text \<open>
  Keras layers as the constructor calls that build them; Keras itself is an external
  collaborator and its own argument checks are not modelled.
  \<open>LSTM units input_shape return_sequences\<close>, \<open>Dropout rate\<close>, \<open>BatchNormalization\<close>,
  \<open>Dense units activation\<close>.
\<close>

datatype layer =
    LSTM py_value "py_value \<times> py_value" bool
  | Dropout py_value
  | BatchNormalization
  | Dense py_value string

record music_rnn =
  self_lstm_layers_count :: py_value
  self_lstm_layers :: "layer list"
  self_dropout_layers :: "layer list"
  self_normalization_layers :: "layer list option"
  self_dense_layer :: layer
  self_output_layer :: layer

text \<open>The parameters of \<open>MusicRNN.__init__\<close>, in the order of its signature.\<close>

record music_rnn_args =
  arg_input_event_dimensions :: py_value
  arg_output_event_dimensions :: py_value
  arg_window_size :: py_value
  arg_lstm_layers_count :: py_value
  arg_lstm_layer_sizes :: py_value
  arg_lstm_dropout_probability :: py_value
  arg_dense_layer_size :: py_value
  arg_use_batch_normalization :: py_value

text \<open>
  Python's binding of a positional argument list to the signature
  \<^verbatim>\<open>
  def __init__(self, input_event_dimensions, output_event_dimensions, window_size, lstm_layers_count,
               lstm_layer_sizes, lstm_dropout_probability, dense_layer_size=256, use_batch_normalization=True)
  \<close>
  the \<open>n\<close>-th argument goes to the \<open>n\<close>-th parameter, a missing optional parameter takes
  its default, and fewer than six or more than eight arguments are a \<open>TypeError\<close>.
\<close>

fun bind_music_rnn_args :: "py_value list \<Rightarrow> error + music_rnn_args" where
  "bind_music_rnn_args [a1, a2, a3, a4, a5, a6] =
     Inr \<lparr>arg_input_event_dimensions = a1, arg_output_event_dimensions = a2,
          arg_window_size = a3, arg_lstm_layers_count = a4, arg_lstm_layer_sizes = a5,
          arg_lstm_dropout_probability = a6, arg_dense_layer_size = PInt 256,
          arg_use_batch_normalization = PBool True\<rparr>"
| "bind_music_rnn_args [a1, a2, a3, a4, a5, a6, a7] =
     Inr \<lparr>arg_input_event_dimensions = a1, arg_output_event_dimensions = a2,
          arg_window_size = a3, arg_lstm_layers_count = a4, arg_lstm_layer_sizes = a5,
          arg_lstm_dropout_probability = a6, arg_dense_layer_size = a7,
          arg_use_batch_normalization = PBool True\<rparr>"
| "bind_music_rnn_args [a1, a2, a3, a4, a5, a6, a7, a8] =
     Inr \<lparr>arg_input_event_dimensions = a1, arg_output_event_dimensions = a2,
          arg_window_size = a3, arg_lstm_layers_count = a4, arg_lstm_layer_sizes = a5,
          arg_lstm_dropout_probability = a6, arg_dense_layer_size = a7,
          arg_use_batch_normalization = a8\<rparr>"
| "bind_music_rnn_args args = Inl TypeError"

text \<open>
  One round of the layer loop of \<open>__init__\<close>, for index \<open>i\<close> of \<open>range(lstm_layers_count)\<close>:
  \<^verbatim>\<open>
  lstm_layer = layers.LSTM(lstm_layer_sizes[i], input_shape=(window_size, input_event_dimensions),
                           return_sequences=i < lstm_layers_count - 1)
  dropout_layer = layers.Dropout(lstm_dropout_probability[i])
  \<close>
\<close>

definition build_layer ::
  "music_rnn_args \<Rightarrow> py_value \<Rightarrow> py_value \<Rightarrow> int \<Rightarrow> int \<Rightarrow> error + (layer \<times> layer)" where
  "build_layer a sizes probabilities n i =
     (case item sizes i of
        Inl e \<Rightarrow> Inl e
      | Inr size_i \<Rightarrow>
          (case item probabilities i of
             Inl e \<Rightarrow> Inl e
           | Inr probability_i \<Rightarrow>
               Inr (LSTM size_i (arg_window_size a, arg_input_event_dimensions a) (i < n - 1),
                    Dropout probability_i)))"

text \<open>
  \<open>MusicRNN.__init__\<close>:
  \<^verbatim>\<open>
  self.lstm_layers_count = lstm_layers_count
  if not np.isscalar(lstm_layer_sizes):
      assert len(lstm_layer_sizes) == lstm_layers_count
  else:
      lstm_layer_sizes = np.full(lstm_layers_count, lstm_layer_sizes)
  if not np.isscalar(lstm_dropout_probability):
      assert len(lstm_dropout_probability) == lstm_layers_count
  else:
      lstm_dropout_probability = np.full(lstm_layers_count, lstm_dropout_probability)
  self.normalization_layers = None if not use_batch_normalization else []
  for i in range(lstm_layers_count): ...
  self.dense_layer = layers.Dense(dense_layer_size, activation='relu')
  self.output_layer = layers.Dense(output_event_dimensions, activation='softmax')
  \<close>
\<close>

definition uniform_or_checked :: "py_value \<Rightarrow> py_value \<Rightarrow> error + py_value" where
  "uniform_or_checked v lstm_layers_count =
     (case v of
        PList xs \<Rightarrow> (if len_equals xs lstm_layers_count then Inr v else Inl AssertionError)
      | _ \<Rightarrow> np_full lstm_layers_count v)"

definition music_rnn_init :: "music_rnn_args \<Rightarrow> error + music_rnn" where
  "music_rnn_init a =
     (case uniform_or_checked (arg_lstm_layer_sizes a) (arg_lstm_layers_count a) of
        Inl e \<Rightarrow> Inl e
      | Inr sizes \<Rightarrow>
          (case uniform_or_checked (arg_lstm_dropout_probability a) (arg_lstm_layers_count a) of
             Inl e \<Rightarrow> Inl e
           | Inr probabilities \<Rightarrow>
               (case as_index (arg_lstm_layers_count a) of
                  Inl e \<Rightarrow> Inl e
                | Inr n \<Rightarrow>
                    (case map_err (\<lambda>i. build_layer a sizes probabilities n (int i)) [0 ..< nat n] of
                       Inl e \<Rightarrow> Inl e
                     | Inr built \<Rightarrow>
                         Inr \<lparr>self_lstm_layers_count = arg_lstm_layers_count a,
                              self_lstm_layers = map fst built,
                              self_dropout_layers = map snd built,
                              self_normalization_layers =
                                (if truthy (arg_use_batch_normalization a)
                                 then Some (map (\<lambda>l. BatchNormalization) built) else None),
                              self_dense_layer = Dense (arg_dense_layer_size a) ''relu'',
                              self_output_layer =
                                Dense (arg_output_event_dimensions a) ''softmax''\<rparr>))))"

text \<open>
  The call in \<open>ModelType.create_model\<close>, six positional arguments:
  \<^verbatim>\<open>
  return models.MusicRNN(
      dimensions, config.model.window_size, config.model.lstm_layers_count,
      config.model.lstm_layer_sizes, config.model.lstm_dropout_probability,
      config.model.use_batch_normalization
  )
  \<close>
\<close>

definition create_music_rnn_call :: "config \<Rightarrow> int \<Rightarrow> py_value list" where
  "create_music_rnn_call cfg dimensions =
     [PInt dimensions, PInt (model_window_size cfg), PInt (model_lstm_layers_count cfg),
      model_lstm_layer_sizes cfg, model_lstm_dropout_probability cfg,
      PBool (model_use_batch_normalization cfg)]"

definition create_model :: "config \<Rightarrow> error + (music_rnn \<times> int)" where
  "create_model cfg =
     (case get_model_event_dimensions cfg of
        Inl e \<Rightarrow> Inl e
      | Inr dimensions \<Rightarrow>
          (case bind_err (bind_music_rnn_args (create_music_rnn_call cfg dimensions)) music_rnn_init of
             Inl e \<Rightarrow> Inl e
           | Inr model \<Rightarrow> Inr (model, dimensions)))"

text \<open>
  The parameter record that naming each argument of that call after the configuration
  entry it carries would not give: what the six positional arguments bind to.
\<close>

definition bound_by_position :: "config \<Rightarrow> int \<Rightarrow> music_rnn_args" where
  "bound_by_position cfg d =
     \<lparr>arg_input_event_dimensions = PInt d,
      arg_output_event_dimensions = PInt (model_window_size cfg),
      arg_window_size = PInt (model_lstm_layers_count cfg),
      arg_lstm_layers_count = model_lstm_layer_sizes cfg,
      arg_lstm_layer_sizes = model_lstm_dropout_probability cfg,
      arg_lstm_dropout_probability = PBool (model_use_batch_normalization cfg),
      arg_dense_layer_size = PInt 256,
      arg_use_batch_normalization = PBool True\<rparr>"

text \<open>An example configuration file: the example vocabulary and a small network.\<close>

definition example_config_file :: config where
  "example_config_file =
     \<lparr>cfg_filepath = ''configs/music_rnn.yml'',
      dataset_time_step_increment = 10, dataset_max_time_steps = 1000,
      dataset_velocity_bins = 32,
      model_window_size = 64, model_lstm_layers_count = 3,
      model_lstm_layer_sizes = PInt 2, model_lstm_dropout_probability = PFloat (1 / 2),
      model_use_batch_normalization = False,
      train_batch_size = 32, train_learning_rate = 1 / 1000\<rparr>"

section \<open>The command-line interface\<close>

text \<open>
  The state of the running process that the commands read: NumPy's global random
  generator (a Mersenne Twister; \<open>np.random.get_state()[1][0]\<close> is the first word of its
  key) and the level of the root logger. A fresh process has a generator seeded by the
  operating system, so its state differs from run to run unless the program seeds it.
\<close>

datatype rng = MT19937 (first_word: int) (other_words: "int list") (position: int)

record process_state =
  rng_state :: rng
  root_log_level :: "int option"

text \<open>JSON values of the metadata manifest, a dictionary in insertion order.\<close>

datatype json = JString string | JBool bool | JNumber rat | JInt int

type_synonym manifest = "(string \<times> json) list"

text \<open>
  What a command does to the outside, in the order it happens. \<open>Split_dataset\<close> and
  \<open>Convert_all\<close> are the calls into \<open>composer.dataset.preprocess\<close> with their arguments;
  each is one synchronous call that returns or raises.
\<close>

datatype action =
    Load_config string
  | Split_dataset config string string rat bool rat int
  | Convert_all config string string int
  | Write_json string manifest
  | Copy_file string string
  | Compile_model
  | Load_weights string
  | Build_model "int \<times> int \<times> int"
  | Load_test_dataset string
  | Evaluate_model

text \<open>
  The collaborators outside the source files, as the outcomes they give: the clock, the
  \<open>logging\<close> module's attribute lookup, \<open>composer.config.get\<close>, the conversion calls (which
  may raise and may draw from the random generator), the file system's writes,
  \<open>Path.absolute\<close> and the directory of the package.
\<close>

record world =
  clock_ms :: int
  local_time :: string
  utc_time :: string
  logging_attr :: "string \<Rightarrow> int option"
  config_get :: "string \<Rightarrow> error + config"
  conversion_outcome :: "action \<Rightarrow> rng \<Rightarrow> error option \<times> rng"
  write_outcome :: "string \<Rightarrow> error option"
  absolute :: "string \<Rightarrow> string"
  package_directory :: string

definition path_join :: "string \<Rightarrow> string \<Rightarrow> string" where
  "path_join directory name = directory @ ''/'' @ name"

text \<open>\<open>str.upper\<close> on ASCII letters.\<close>

definition upper :: "string \<Rightarrow> string" where
  "upper s = map (\<lambda>c. if 97 \<le> (of_char c :: nat) \<and> (of_char c :: nat) \<le> 122
                        then char_of ((of_char c :: nat) - 32) else c) s"

subsection \<open>The group callback\<close>

text \<open>
  \<open>_set_verbosity_level(logger, value)\<close>: an unknown level name is a \<open>click.BadParameter\<close>.
\<close>

definition set_verbosity_level :: "world \<Rightarrow> process_state \<Rightarrow> string \<Rightarrow> error + process_state" where
  "set_verbosity_level w st verbosity =
     (case logging_attr w (upper verbosity) of
        None \<Rightarrow> Inl BadParameter
      | Some x \<Rightarrow> Inr (st\<lparr>root_log_level := Some x\<rparr>))"

text \<open>
  The seed that \<open>cli\<close> settles on, a local variable:
  \<^verbatim>\<open>
  if seed is None:
      t = int(time.time() * 1000.0)
      seed = ((t & 0xff000000) >> 24) + ((t & 0x00ff0000) >> 8) + ((t & 0x0000ff00) <<  8) + ((t & 0x000000ff) << 24)
  \<close>
\<close>

definition cli_seed :: "world \<Rightarrow> int option \<Rightarrow> int" where
  "cli_seed w seed =
     (case seed of
        Some s \<Rightarrow> s
      | None \<Rightarrow>
          (let t = clock_ms w
           in drop_bit 24 (t AND 0xff000000) + drop_bit 8 (t AND 0x00ff0000)
              + push_bit 8 (t AND 0x0000ff00) + push_bit 24 (t AND 0x000000ff)))"

text \<open>
  \<open>cli(ctx, verbosity, seed)\<close>, which runs before every command. After the seed is
  settled the body is
  \<^verbatim>\<open>
  logging_utils.init()
  _set_verbosity_level(logging.getLogger(), verbosity)
  \<close>
  The seed is not stored in the context, not passed on and not given to the random
  generator; the local variable ends with the function.
\<close>

definition cli :: "world \<Rightarrow> process_state \<Rightarrow> string \<Rightarrow> int option \<Rightarrow> error + process_state" where
  "cli w st verbosity seed =
     (let seed = cli_seed w seed
      in set_verbosity_level w st verbosity)"

subsection \<open>Names and scopes\<close>

text \<open>
  Reading a name in a function body. A name that the function assigns somewhere is a
  local: read before it is bound it raises \<open>UnboundLocalError\<close>. Any other name is looked up
  among the module's globals (and builtins) and raises \<open>NameError\<close> when absent.
\<close>

definition read_name :: "string list \<Rightarrow> string list \<Rightarrow> string list \<Rightarrow> string \<Rightarrow> error + unit" where
  "read_name bound_locals locals globals name =
     (if name \<in> set locals
      then (if name \<in> set bound_locals then Inr () else Inl (UnboundLocalError name))
      else if name \<in> set globals then Inr ()
      else Inl (NameError name))"

text \<open>The names bound at module level in the command-line module: imports and definitions.\<close>

definition module_globals :: "string list" where
  "module_globals =
     [''re'', ''tqdm'', ''time'', ''json'', ''click'', ''logging'', ''datetime'', ''np'',
      ''composer'', ''logging_utils'', ''copy2'', ''Path'', ''Enum'', ''unique'', ''EnumType'',
      ''DatasetError'', ''InvalidParameterError'', ''NoteSequence'', ''EventSequence'',
      ''OneHotEncodedEventSequence'', ''_set_verbosity_level'', ''cli'', ''preprocess'',
      ''get_event_sequence_ranges'', ''get_model_event_dimensions'', ''decode_to_event'',
      ''ModelType'', ''get_default_config'', ''compile_model'', ''summary'',
      ''visualize_training'', ''train'', ''evaluate'', ''generate'']"

text \<open>The model types and \<open>get_default_config(model_type)\<close>.\<close>

datatype model_type = MUSIC_RNN

definition get_default_config :: "world \<Rightarrow> model_type \<Rightarrow> string" where
  "get_default_config w mt = (case mt of MUSIC_RNN \<Rightarrow> path_join (package_directory w) ''music_rnn_config.yml'')"

text \<open>
  \<open>config_filepath or default\<close>: the option's value when it is truthy (given and not the
  empty string), otherwise the value of the right operand, which is only then evaluated.
\<close>

definition or_default :: "string option \<Rightarrow> error + string \<Rightarrow> error + string" where
  "or_default config_filepath default_path =
     (case config_filepath of
        None \<Rightarrow> default_path
      | Some p \<Rightarrow> (if p = [] then default_path else Inr p))"

subsection \<open>The preprocess command\<close>

text \<open>The parameters of \<open>preprocess\<close>, its only locals besides \<open>config\<close>, \<open>metadata_file\<close> and \<open>metadata\<close>.\<close>

definition preprocess_parameters :: "string list" where
  "preprocess_parameters =
     [''dataset_path'', ''output_directory'', ''num_workers'', ''config_filepath'',
      ''transform'', ''transform_percent'', ''split'', ''test_percent'', ''output_metadata'']"

definition preprocess_locals :: "string list" where
  "preprocess_locals = preprocess_parameters @ [''config'', ''metadata_file'', ''metadata'']"

record preprocess_args =
  pp_dataset_path :: string
  pp_output_directory :: string
  pp_num_workers :: int
  pp_config_filepath :: "string option"
  pp_transform :: bool
  pp_transform_percent :: rat
  pp_split :: bool
  pp_test_percent :: rat
  pp_output_metadata :: bool

text \<open>
  The argument of \<open>composer.config.get\<close> in the first statement of \<open>preprocess\<close>:
  \<^verbatim>\<open>config = composer.config.get(config_filepath or get_default_config(model_type))\<close>
  The right operand reads the names \<open>get_default_config\<close> and \<open>model_type\<close>.
\<close>

definition preprocess_config_path :: "world \<Rightarrow> string option \<Rightarrow> error + string" where
  "preprocess_config_path w config_filepath =
     or_default config_filepath
       (case read_name preprocess_parameters preprocess_locals module_globals ''get_default_config'' of
          Inl e \<Rightarrow> Inl e
        | Inr u \<Rightarrow>
            (case read_name preprocess_parameters preprocess_locals module_globals ''model_type'' of
               Inl e \<Rightarrow> Inl e
             | Inr u \<Rightarrow> Inr (get_default_config w MUSIC_RNN)))"

text \<open>The dictionary dumped to \<open>metadata.json\<close>, with the generator state read at that moment.\<close>

definition metadata_of :: "world \<Rightarrow> rng \<Rightarrow> preprocess_args \<Rightarrow> manifest" where
  "metadata_of w g a =
     [(''local_time'', JString (local_time w)),
      (''utc_time'', JString (utc_time w)),
      (''raw_dataset_path'', JString (absolute w (pp_dataset_path a))),
      (''output_directory'', JString (absolute w (pp_output_directory a))),
      (''transform'', JBool (pp_transform a)),
      (''transform_percent'', JNumber (pp_transform_percent a)),
      (''split'', JBool (pp_split a)),
      (''test_percent'', JNumber (pp_test_percent a)),
      (''seed'', JInt (first_word g))]"

text \<open>
  \<open>preprocess\<close>: the exception or normal return, and the actions up to there.
  \<^verbatim>\<open>
  config = composer.config.get(config_filepath or get_default_config(model_type))
  output_directory = Path(output_directory)
  if split:
      composer.dataset.preprocess.split_dataset(config, dataset_path, output_directory, test_percent,
                                                transform, transform_percent, num_workers)
  else:
      composer.dataset.preprocess.convert_all(config, dataset_path, output_directory, num_workers)
  if not output_metadata: return
  with open(output_directory / 'metadata.json', 'w+') as metadata_file:
      metadata = {...}
      json.dump(metadata, metadata_file, indent=True)
  copy2(config.filepath, output_directory / 'config.yml')
  \<close>
\<close>

definition conversion_call :: "config \<Rightarrow> preprocess_args \<Rightarrow> action" where
  "conversion_call cfg a =
     (if pp_split a
      then Split_dataset cfg (pp_dataset_path a) (pp_output_directory a) (pp_test_percent a)
             (pp_transform a) (pp_transform_percent a) (pp_num_workers a)
      else Convert_all cfg (pp_dataset_path a) (pp_output_directory a) (pp_num_workers a))"

definition preprocess :: "world \<Rightarrow> process_state \<Rightarrow> preprocess_args \<Rightarrow> (error + unit) \<times> action list" where
  "preprocess w st a =
     (case preprocess_config_path w (pp_config_filepath a) of
        Inl e \<Rightarrow> (Inl e, [])
      | Inr path \<Rightarrow>
          (case config_get w path of
             Inl e \<Rightarrow> (Inl e, [Load_config path])
           | Inr cfg \<Rightarrow>
               (let conversion = conversion_call cfg a;
                    (failure, g) = conversion_outcome w conversion (rng_state st);
                    done_so_far = [Load_config path, conversion]
                in case failure of
                     Some e \<Rightarrow> (Inl e, done_so_far)
                   | None \<Rightarrow>
                       (if \<not> pp_output_metadata a then (Inr (), done_so_far)
                        else
                          (let metadata_path = path_join (pp_output_directory a) ''metadata.json'';
                               config_copy = path_join (pp_output_directory a) ''config.yml''
                           in case write_outcome w metadata_path of
                                Some e \<Rightarrow> (Inl e, done_so_far)
                              | None \<Rightarrow>
                                  (case write_outcome w config_copy of
                                     Some e \<Rightarrow>
                                       (Inl e, done_so_far @ [Write_json metadata_path (metadata_of w g a)])
                                   | None \<Rightarrow>
                                       (Inr (), done_so_far @
                                          [Write_json metadata_path (metadata_of w g a),
                                           Copy_file (cfg_filepath cfg) config_copy])))))))"




subsection \<open>The evaluate command\<close>







subsection \<open>An example world\<close>

definition example_world :: world where
  "example_world =
     \<lparr>clock_ms = 1700000000000,
      local_time = ''2023-11-14 23:13:20'',
      utc_time = ''2023-11-14 22:13:20'',
      logging_attr = map_of [(''CRITICAL'', 50), (''ERROR'', 40), (''WARNING'', 30),
                             (''INFO'', 20), (''DEBUG'', 10)],
      config_get = (\<lambda>p. if p = ''configs/music_rnn.yml'' then Inr example_config_file
                          else Inl (Raised ''FileNotFoundError'')),
      conversion_outcome = (\<lambda>c g. (None, g)),
      write_outcome = (\<lambda>p. None),
      absolute = (\<lambda>p. ''/home/user/'' @ p),
      package_directory = ''/opt/composer''\<rparr>"

definition example_state :: "int \<Rightarrow> process_state" where
  "example_state entropy = \<lparr>rng_state = MT19937 entropy [] 624, root_log_level = None\<rparr>"

definition example_preprocess_args :: preprocess_args where
  "example_preprocess_args =
     \<lparr>pp_dataset_path = ''raw'', pp_output_directory = ''out'', pp_num_workers = 16,
      pp_config_filepath = Some ''configs/music_rnn.yml'',
      pp_transform = False, pp_transform_percent = 1 / 2, pp_split = True, pp_test_percent = 3 / 10,
      pp_output_metadata = True\<rparr>"


text \<open>
  One invocation of \<open>composer --seed S preprocess ...\<close>: the group callback, then the
  command, on the state the callback leaves.
\<close>

definition run_preprocess ::
  "world \<Rightarrow> process_state \<Rightarrow> string \<Rightarrow> int option \<Rightarrow> preprocess_args \<Rightarrow> (error + unit) \<times> action list" where
  "run_preprocess w st verbosity seed a =
     (case cli w st verbosity seed of
        Inl e \<Rightarrow> (Inl e, [])
      | Inr st' \<Rightarrow> preprocess w st' a)"

section \<open>Properties of the codec\<close>

lemma derived_ranges:
  assumes "compute_event_value_ranges tsi mts vb = Inr vr"
  shows "compute_event_ranges (compute_event_dimensions vr) =
           [NOTE_ON \<mapsto> (0, 128), NOTE_OFF \<mapsto> (128, 256),
            TIME_SHIFT \<mapsto> (256, 256 + mts),
            VELOCITY_CHANGE \<mapsto> (256 + mts, 256 + mts + vb)]"
proof -
  from assms have vr: "vr = [NOTE_ON \<mapsto> (0, 127), NOTE_OFF \<mapsto> (0, 127),
                TIME_SHIFT \<mapsto> (0, mts - 1), VELOCITY_CHANGE \<mapsto> (0, vb - 1)]"
    by (auto simp: compute_event_value_ranges_def split: if_splits)
  show ?thesis
    unfolding vr compute_event_ranges_def compute_event_dimensions_def kind_order_def
    by (rule ext) simp
qed

lemma derived_positive:
  assumes "compute_event_value_ranges tsi mts vb = Inr vr"
  shows "0 < mts" "0 < vb"
  using assms by (auto simp: compute_event_value_ranges_def split: if_splits)

lemma derived_size:
  assumes "compute_event_value_ranges tsi mts vb = Inr vr"
  shows "get_one_hot_size (compute_event_ranges (compute_event_dimensions vr)) = 256 + mts + vb"
  using derived_positive[OF assms]
  by (simp add: derived_ranges[OF assms] get_one_hot_size_def kind_order_def stop_def)

lemma one_hot_split:
  assumes "i < n"
  shows "(replicate n (0::int))[i := 1] = replicate i 0 @ 1 # replicate (n - i - 1) 0"
proof -
  have "(replicate n (0::int))[i := 1]
          = take i (replicate n 0) @ 1 # drop (Suc i) (replicate n 0)"
    using assms by (simp add: upd_conv_take_nth_drop)
  also have "\<dots> = replicate i 0 @ 1 # replicate (n - i - 1) 0"
    using assms by (simp add: min_def)
  finally show ?thesis .
qed

lemma list_max_one_hot:
  assumes "i < n"
  shows "list_max ((replicate n 0)[i := 1]) = 1"
proof -
  let ?v = "(replicate n (0::int))[i := 1]"
  have ne: "?v \<noteq> []" using assms by auto
  then obtain a as where v: "?v = a # as" by (cases ?v) auto
  have "list_max ?v = Max (set ?v)"
    unfolding v list_max_def using Max.set_eq_fold[of a as] by simp
  also have "\<dots> = 1"
  proof (rule Max_eqI)
    show "finite (set ?v)" by simp
    show "1 \<in> set ?v" using assms by (simp add: one_hot_split)
    fix y assume "y \<in> set ?v"
    then show "y \<le> 1" using assms by (auto simp: one_hot_split)
  qed
  finally show ?thesis .
qed

lemma argmax_one_hot:
  assumes "0 \<le> i" "i < n"
  shows "argmax (one_hot n i) = nat i"
proof -
  have lt: "nat i < nat n" using assms by simp
  have "takeWhile (\<lambda>x. x < 1) ((replicate (nat n) (0::int))[nat i := 1]) = replicate (nat i) 0"
    unfolding one_hot_split[OF lt] by (subst takeWhile_append2) auto
  then show ?thesis
    by (simp add: argmax_def one_hot_def list_max_one_hot[OF lt])
qed

lemma one_hot_nonempty: "0 \<le> i \<Longrightarrow> i < n \<Longrightarrow> one_hot n i \<noteq> []"
  by (simp add: one_hot_def)


lemma id_to_event_derived:
  assumes cfg: "compute_event_value_ranges tsi mts vb = Inr vr"
    and rs: "ranges = compute_event_ranges (compute_event_dimensions vr)"
    and i: "0 \<le> i" "i < 256 + mts + vb"
  shows "id_to_event i ranges vr =
     Inr (if i < 128 then Event NOTE_ON (Some i)
          else if i < 256 then Event NOTE_OFF (Some (i - 128))
          else if i < 256 + mts then Event TIME_SHIFT (Some (i - 256))
          else Event VELOCITY_CHANGE (Some (i - (256 + mts))))"
proof -
  have sz: "get_one_hot_size ranges = 256 + mts + vb" by (simp add: rs derived_size[OF cfg])
  have rm: "ranges = [NOTE_ON \<mapsto> (0, 128), NOTE_OFF \<mapsto> (128, 256),
            TIME_SHIFT \<mapsto> (256, 256 + mts),
            VELOCITY_CHANGE \<mapsto> (256 + mts, 256 + mts + vb)]"
    by (simp add: rs derived_ranges[OF cfg])
  have fk: "find_kind kind_order i ranges =
     Some (if i < 128 then (NOTE_ON, (0, 128))
          else if i < 256 then (NOTE_OFF, (128, 256))
          else if i < 256 + mts then (TIME_SHIFT, (256, 256 + mts))
          else (VELOCITY_CHANGE, (256 + mts, 256 + mts + vb)))"
    using i by (simp add: rm kind_order_def in_range_def start_def stop_def)
  show ?thesis using i by (simp add: id_to_event_def sz fk start_def)
qed

lemma encode_id_to_event:
  assumes cfg: "compute_event_value_ranges tsi mts vb = Inr vr"
    and rs: "ranges = compute_event_ranges (compute_event_dimensions vr)"
    and i: "0 \<le> i" "i < 256 + mts + vb"
    and ev: "id_to_event i ranges vr = Inr ev"
  shows "encode_event_as_int ev ranges = Inr i"
  using ev i derived_positive[OF cfg] unfolding id_to_event_derived[OF cfg rs i]
  by (auto simp: encode_event_as_int_def rs derived_ranges[OF cfg] start_def value_or_zero_def
      split: if_splits)

lemma valid_event_encode:
  assumes cfg: "compute_event_value_ranges tsi mts vb = Inr vr"
    and rs: "ranges = compute_event_ranges (compute_event_dimensions vr)"
    and v: "valid_event ev vr"
  shows "\<exists>i. encode_event_as_int ev ranges = Inr i \<and> 0 \<le> i \<and> i < 256 + mts + vb
            \<and> id_to_event i ranges vr = Inr ev"
proof -
  from cfg have vr: "vr = [NOTE_ON \<mapsto> (0, 127), NOTE_OFF \<mapsto> (0, 127),
                TIME_SHIFT \<mapsto> (0, mts - 1), VELOCITY_CHANGE \<mapsto> (0, vb - 1)]"
    by (auto simp: compute_event_value_ranges_def split: if_splits)
  obtain k ov where e: "ev = Event k ov" by (cases ev)
  from v obtain x where x: "ov = Some x" 
    by (auto simp: valid_event_def e split: option.splits)
  note pos = derived_positive[OF cfg]
  show ?thesis
  proof (cases k)
    case NOTE_ON
    with v x e have b: "0 \<le> x" "x \<le> 127" by (auto simp: valid_event_def vr)
    have enc: "encode_event_as_int ev ranges = Inr x"
      by (simp add: encode_event_as_int_def rs derived_ranges[OF cfg] e x NOTE_ON start_def value_or_zero_def)
    have i: "0 \<le> x" "x < 256 + mts + vb" using b pos by auto
    show ?thesis using enc i b by (simp add: id_to_event_derived[OF cfg rs i] e x NOTE_ON)
  next
    case NOTE_OFF
    with v x e have b: "0 \<le> x" "x \<le> 127" by (auto simp: valid_event_def vr)
    have enc: "encode_event_as_int ev ranges = Inr (128 + x)"
      by (simp add: encode_event_as_int_def rs derived_ranges[OF cfg] e x NOTE_OFF start_def value_or_zero_def)
    have i: "0 \<le> 128 + x" "128 + x < 256 + mts + vb" using b pos by auto
    show ?thesis using enc i b by (simp add: id_to_event_derived[OF cfg rs i] e x NOTE_OFF)
  next
    case TIME_SHIFT
    with v x e have b: "0 \<le> x" "x \<le> mts - 1" by (auto simp: valid_event_def vr)
    have enc: "encode_event_as_int ev ranges = Inr (256 + x)"
      by (simp add: encode_event_as_int_def rs derived_ranges[OF cfg] e x TIME_SHIFT start_def value_or_zero_def)
    have i: "0 \<le> 256 + x" "256 + x < 256 + mts + vb" using b pos by auto
    show ?thesis using enc i b by (simp add: id_to_event_derived[OF cfg rs i] e x TIME_SHIFT)
  next
    case VELOCITY_CHANGE
    with v x e have b: "0 \<le> x" "x \<le> vb - 1" by (auto simp: valid_event_def vr)
    have enc: "encode_event_as_int ev ranges = Inr (256 + mts + x)"
      by (simp add: encode_event_as_int_def rs derived_ranges[OF cfg] e x VELOCITY_CHANGE start_def value_or_zero_def)
    have i: "0 \<le> 256 + mts + x" "256 + mts + x < 256 + mts + vb" using b pos by auto
    show ?thesis using enc i b pos by (simp add: id_to_event_derived[OF cfg rs i] e x VELOCITY_CHANGE)
  qed
qed

lemma example_config:
  "compute_event_value_ranges 10 1000 32 = Inr example_value_ranges"
  by (simp add: compute_event_value_ranges_def example_value_ranges_def)


lemma example_size: "get_one_hot_size example_ranges = 1288"
  unfolding example_ranges_def using derived_size[OF example_config] by simp

text \<open>
  Claim C3. For every valid configuration \<open>(time_step_increment, max_time_steps,
  velocity_bins)\<close> and every event that is valid under the value ranges derived from it,
  decoding the integer encoding gives the event back, and decoding the one-hot encoding
  gives the event back. The encoder is the source's \<open>_encode_event_as_int\<close>; the decoders
  and the one-hot encoder follow the spec.
\<close>

theorem codec_round_trip:
  assumes cfg: "compute_event_value_ranges tsi mts vb = Inr vr"
    and rs: "ranges = compute_event_ranges (compute_event_dimensions vr)"
    and v: "valid_event ev vr"
  shows "bind_err (encode_event_as_int ev ranges) (\<lambda>i. id_to_event i ranges vr) = Inr ev
       \<and> bind_err (event_as_one_hot_vector ev ranges vr)
                  (\<lambda>vec. one_hot_vector_as_event vec ranges vr) = Inr ev"
proof -
  from valid_event_encode[OF cfg rs v] obtain i where
    enc: "encode_event_as_int ev ranges = Inr i" and i: "0 \<le> i" "i < 256 + mts + vb"
    and dec: "id_to_event i ranges vr = Inr ev" by blast
  have sz: "get_one_hot_size ranges = 256 + mts + vb" by (simp add: rs derived_size[OF cfg])
  have ints: "bind_err (encode_event_as_int ev ranges) (\<lambda>i. id_to_event i ranges vr) = Inr ev"
    by (simp add: bind_err_def enc dec)
  have oh: "event_as_one_hot_vector ev ranges vr = Inr (one_hot (256 + mts + vb) i)"
    using i by (simp add: event_as_one_hot_vector_def enc sz)
  have dec_vec: "one_hot_vector_as_event (one_hot (256 + mts + vb) i) ranges vr = Inr ev"
    using i by (simp add: one_hot_vector_as_event_def one_hot_nonempty argmax_one_hot dec)
  show ?thesis using ints by (simp add: bind_err_def oh dec_vec)
qed

theorem codec_round_trip_witness:
  "compute_event_value_ranges 10 1000 32 = Inr example_value_ranges
   \<and> valid_event (Event TIME_SHIFT (Some 499)) example_value_ranges
   \<and> bind_err (encode_event_as_int (Event TIME_SHIFT (Some 499)) example_ranges)
        (\<lambda>i. id_to_event i example_ranges example_value_ranges)
       = Inr (Event TIME_SHIFT (Some 499))
   \<and> bind_err (event_as_one_hot_vector (Event TIME_SHIFT (Some 499)) example_ranges
                  example_value_ranges)
        (\<lambda>vec. one_hot_vector_as_event vec example_ranges example_value_ranges)
       = Inr (Event TIME_SHIFT (Some 499))"
proof -
  have c: "compute_event_value_ranges 10 1000 32 = Inr example_value_ranges"
    by (simp add: compute_event_value_ranges_def example_value_ranges_def)
  have v: "valid_event (Event TIME_SHIFT (Some 499)) example_value_ranges"
    by (simp add: valid_event_def example_value_ranges_def)
  have r: "example_ranges = compute_event_ranges (compute_event_dimensions example_value_ranges)"
    by (simp add: example_ranges_def)
  show ?thesis using c v codec_round_trip[OF c r v] by simp
qed




section \<open>Properties of the windowing extractor\<close>

lemma map_err_all:
  assumes "\<And>x. x \<in> set xs \<Longrightarrow> f x = Inr (g x)"
  shows "map_err f xs = Inr (map g xs)"
  using assms by (induction xs) auto

lemma chunk_bounds:
  fixes w i :: nat
  assumes "i < n div (w + 1)"
  shows "i * (w + 1) + w < n"
proof -
  from assms have "Suc i \<le> n div (w + 1)" by simp
  then have "Suc i * (w + 1) \<le> n div (w + 1) * (w + 1)" by (rule mult_le_mono1)
  also have "\<dots> \<le> n" by (rule div_times_less_eq_dividend)
  finally show ?thesis by simp
qed

lemma py_slice_nat:
  assumes "a \<le> b" "b \<le> length xs"
  shows "py_slice xs (int a) (int b) = take (b - a) (drop a xs)"
proof -
  have lo: "slice_bound (int (length xs)) (int a) = int a"
    using assms by (simp add: slice_bound_def)
  have hi: "slice_bound (int (length xs)) (int b) = int b"
    using assms by (simp add: slice_bound_def)
  have d: "nat (int b - int a) = b - a" using assms by simp
  show ?thesis by (simp add: py_slice_def Let_def lo hi d)
qed

lemma py_index_nat:
  assumes "k < length xs"
  shows "py_index xs (int k) = Inr (xs ! k)"
  using assms by (simp add: py_index_def Let_def)

lemma py_slice_chunk:
  fixes w i :: nat
  assumes "i * (w + 1) + w < length ids"
  shows "py_slice ids (int i * (int w + 1)) ((int w + 1) * (int i + 1) - 1) = chunk_input ids w i"
proof -
  have a: "int i * (int w + 1) = int (i * (w + 1))" by (simp add: algebra_simps)
  have b: "(int w + 1) * (int i + 1) - 1 = int (i * (w + 1) + w)" by (simp add: algebra_simps)
  have "py_slice ids (int (i * (w + 1))) (int (i * (w + 1) + w))
          = take (i * (w + 1) + w - i * (w + 1)) (drop (i * (w + 1)) ids)"
    using assms by (intro py_slice_nat) simp_all
  then show ?thesis unfolding a b chunk_input_def by simp
qed

lemma py_index_chunk:
  fixes w i :: nat
  assumes "i * (w + 1) + w < length ids"
  shows "py_index ids ((int w + 1) * (int i + 1) - 1) = Inr (chunk_label ids w i)"
proof -
  have b: "(int w + 1) * (int i + 1) - 1 = int (i * (w + 1) + w)" by (simp add: algebra_simps)
  show ?thesis unfolding b chunk_label_def using assms by (rule py_index_nat)
qed

lemma extract_sequence_ok:
  fixes w i :: nat
  assumes cfg: "compute_event_value_ranges tsi mts vb = Inr vr"
    and rs: "ranges = compute_event_ranges (compute_event_dimensions vr)"
    and ids: "valid_ids ranges ids"
    and i: "i < length ids div (w + 1)"
  shows "extract_sequence ids vr ranges (int w) (int i) =
           Inr (map (\<lambda>v. [v]) (chunk_input ids w i),
                one_hot (get_one_hot_size ranges) (chunk_label ids w i))"
proof -
  note b = chunk_bounds[OF i]
  have sz: "get_one_hot_size ranges = 256 + mts + vb" by (simp add: rs derived_size[OF cfg])
  have "chunk_label ids w i \<in> set ids" using b by (simp add: chunk_label_def)
  with ids have lab: "0 \<le> chunk_label ids w i" "chunk_label ids w i < 256 + mts + vb"
    by (auto simp: valid_ids_def list_all_iff sz)
  obtain ev where ev: "id_to_event (chunk_label ids w i) ranges vr = Inr ev"
    using id_to_event_derived[OF cfg rs lab] by blast
  have enc: "encode_event_as_int ev ranges = Inr (chunk_label ids w i)"
    by (rule encode_id_to_event[OF cfg rs lab ev])
  have oh: "event_as_one_hot_vector ev ranges vr
              = Inr (one_hot (get_one_hot_size ranges) (chunk_label ids w i))"
    using lab by (simp add: event_as_one_hot_vector_def enc sz)
  have len: "length (chunk_input ids w i) = w" using b by (simp add: chunk_input_def)
  have x: "reshape_column (int w) (chunk_input ids w i) = Inr (map (\<lambda>v. [v]) (chunk_input ids w i))"
    by (simp add: reshape_column_def len)
  show ?thesis
    by (simp add: extract_sequence_def Let_def py_slice_chunk[OF b] py_index_chunk[OF b] x ev oh)
qed

lemma get_sequences_ok:
  fixes w :: nat
  assumes cfg: "compute_event_value_ranges tsi mts vb = Inr vr"
    and rs: "ranges = compute_event_ranges (compute_event_dimensions vr)"
    and fl: "fs filepath = Some (ids, vr, ranges)"
    and ids: "valid_ids ranges ids"
  shows "get_sequences_from_file fs filepath (int w) =
           Inr (map (\<lambda>i. (map (\<lambda>v. [v]) (chunk_input ids w i),
                          one_hot (get_one_hot_size ranges) (chunk_label ids w i)))
                    [0 ..< length ids div (w + 1)])"
proof -
  have cnt: "py_floordiv (int (length ids)) (int w + 1) = Inr (int (length ids div (w + 1)))"
    by (simp add: py_floordiv_def zdiv_int add.commute)
  have "map_err (\<lambda>i. extract_sequence ids vr ranges (int w) (int i)) [0 ..< length ids div (w + 1)]
        = Inr (map (\<lambda>i. (map (\<lambda>v. [v]) (chunk_input ids w i),
                          one_hot (get_one_hot_size ranges) (chunk_label ids w i)))
                    [0 ..< length ids div (w + 1)])"
    by (rule map_err_all) (simp add: extract_sequence_ok[OF cfg rs ids])
  then show ?thesis
    by (simp add: get_sequences_from_file_def event_ids_from_file_def fl Let_def cnt)
qed


lemma example_valid_ids: "valid_ids example_ranges [60, 188, 256, 1256, 61]"
  by (simp add: valid_ids_def example_size)

lemma example_file: "example_fs ''train/a.seq'' = Some ([60, 188, 256, 1256, 61], example_value_ranges, example_ranges)"
  by (simp add: example_fs_def)

lemma example_sequences:
  "get_sequences_from_file example_fs ''train/a.seq'' 1 =
     Inr [([[60]], one_hot 1288 188), ([[256]], one_hot 1288 1256)]"
  by code_simp

text \<open>
  Claim C2. For a file holding a sequence of \<open>L\<close> valid event ids (under the ranges of a
  valid configuration) and every window size \<open>W\<close>, the extraction returns exactly
  \<open>floor(L / (W + 1))\<close> tuples, in order from the start of the stream; the \<open>i\<close>-th tuple's
  \<open>x\<close> is the column of the first \<open>W\<close> ids of the \<open>i\<close>-th chunk of \<open>W + 1\<close> ids and its
  \<open>y\<close> is the one-hot vector of that chunk's last id. Ids beyond the last whole chunk
  occur in no tuple. A window size is a count, hence a natural number.
\<close>

theorem windowing_extraction:
  fixes w :: nat
  assumes cfg: "compute_event_value_ranges tsi mts vb = Inr vr"
    and rs: "ranges = compute_event_ranges (compute_event_dimensions vr)"
    and fl: "fs filepath = Some (ids, vr, ranges)"
    and ids: "valid_ids ranges ids"
  shows "\<exists>ts. get_sequences_from_file fs filepath (int w) = Inr ts
            \<and> length ts = length ids div (w + 1)
            \<and> (\<forall>i < length ts.
                  ts ! i = (map (\<lambda>v. [v]) (take w (drop (i * (w + 1)) ids)),
                            one_hot (get_one_hot_size ranges) (ids ! (i * (w + 1) + w))))"
  unfolding get_sequences_ok[where fs=fs and filepath=filepath, OF cfg rs fl ids]
  by (simp add: chunk_input_def chunk_label_def)

theorem windowing_extraction_witness:
  "compute_event_value_ranges 10 1000 32 = Inr example_value_ranges
   \<and> example_fs ''train/a.seq'' = Some ([60, 188, 256, 1256, 61], example_value_ranges, example_ranges)
   \<and> valid_ids example_ranges [60, 188, 256, 1256, 61]
   \<and> (\<exists>ts. get_sequences_from_file example_fs ''train/a.seq'' (int 1) = Inr ts
          \<and> length ts = length [60, 188, 256, 1256, 61 :: int] div (1 + 1)
          \<and> ts = [([[60]], one_hot 1288 188), ([[256]], one_hot 1288 1256)])"
proof -
  from windowing_extraction[where fs=example_fs and filepath="''train/a.seq''" and w=1,
         OF example_config example_ranges_def example_file example_valid_ids]
  obtain ts where r: "get_sequences_from_file example_fs ''train/a.seq'' (int 1) = Inr ts"
    and n: "length ts = length [60, 188, 256, 1256, 61 :: int] div (1 + 1)"
    by blast
  from r have "ts = [([[60]], one_hot 1288 188), ([[256]], one_hot 1288 1256)]"
    by (simp add: example_sequences)
  with r n example_config example_file example_valid_ids show ?thesis by blast
qed




lemma example_one_hot_size:
  "bind_err (event_sequence_from_file example_fs ''train/a.seq'') to_one_hot_encoding
     = Inr (map (one_hot 1288) [60, 188, 256, 1256, 61], 1288)"
  by code_simp

text \<open>
  Claim C1 asks the loader for a pair whose first component is a dataset. The source ends
  in \<open>return None\<close>: on the example file it returns \<open>None\<close>, with and without the
  generator, and on no input does it return a pair.
\<close>

theorem create_music_rnn_dataset_returns_None:
  "create_music_rnn_dataset example_fs [''train/a.seq''] 32 1 False 2 = Inr None
   \<and> create_music_rnn_dataset example_fs [''train/a.seq''] 32 1 True 2 = Inr None
   \<and> (\<forall>fs filepaths batch_size window_size use_generator prefetch d.
         create_music_rnn_dataset fs filepaths batch_size window_size use_generator prefetch
           \<noteq> Inr (Some d))"
proof -
  have first_path: "py_index [''train/a.seq''] 0 = Inr ''train/a.seq''"
    by (simp add: py_index_def)
  have a: "create_music_rnn_dataset example_fs [''train/a.seq''] 32 1 False 2 = Inr None"
    by (simp add: create_music_rnn_dataset_def first_path example_one_hot_size example_sequences)
  have b: "create_music_rnn_dataset example_fs [''train/a.seq''] 32 1 True 2 = Inr None"
    by (simp add: create_music_rnn_dataset_def first_path example_one_hot_size)
  have c: "create_music_rnn_dataset fs filepaths batch_size window_size use_generator prefetch
           \<noteq> Inr (Some d)" for fs filepaths batch_size window_size use_generator prefetch d
    by (simp add: create_music_rnn_dataset_def Let_def split: sum.splits prod.splits)
  show ?thesis using a b c by blast
qed

section \<open>Properties of the model constructor\<close>

lemma map_err_Inr_set:
  assumes "map_err f xs = Inr ys" "y \<in> set ys"
  shows "\<exists>x \<in> set xs. f x = Inr y"
  using assms
  by (induction xs arbitrary: ys) (auto split: sum.splits)

lemma build_layer_shape:
  assumes "build_layer a sizes probabilities n i = Inr (l, d)"
  shows "\<exists>u r. l = LSTM u (arg_window_size a, arg_input_event_dimensions a) r"
  using assms by (auto simp: build_layer_def split: sum.splits)

lemma music_rnn_init_fields:
  assumes "music_rnn_init a = Inr m"
  shows "self_output_layer m = Dense (arg_output_event_dimensions a) ''softmax''"
    and "self_dense_layer m = Dense (arg_dense_layer_size a) ''relu''"
    and "self_lstm_layers_count m = arg_lstm_layers_count a"
    and "self_normalization_layers m = None \<longleftrightarrow> \<not> truthy (arg_use_batch_normalization a)"
    and "list_all (\<lambda>l. \<exists>u r. l = LSTM u (arg_window_size a, arg_input_event_dimensions a) r)
           (self_lstm_layers m)"
proof -
  from assms obtain sizes probabilities n built where
    built: "map_err (\<lambda>i. build_layer a sizes probabilities n (int i)) [0 ..< nat n] = Inr built"
    and m: "m = \<lparr>self_lstm_layers_count = arg_lstm_layers_count a,
                  self_lstm_layers = map fst built,
                  self_dropout_layers = map snd built,
                  self_normalization_layers =
                    (if truthy (arg_use_batch_normalization a)
                     then Some (map (\<lambda>l. BatchNormalization) built) else None),
                  self_dense_layer = Dense (arg_dense_layer_size a) ''relu'',
                  self_output_layer = Dense (arg_output_event_dimensions a) ''softmax''\<rparr>"
    by (auto simp: music_rnn_init_def split: sum.splits)
  show "self_output_layer m = Dense (arg_output_event_dimensions a) ''softmax''" by (simp add: m)
  show "self_dense_layer m = Dense (arg_dense_layer_size a) ''relu''" by (simp add: m)
  show "self_lstm_layers_count m = arg_lstm_layers_count a" by (simp add: m)
  show "self_normalization_layers m = None \<longleftrightarrow> \<not> truthy (arg_use_batch_normalization a)"
    by (simp add: m)
  have "\<exists>u r. fst p = LSTM u (arg_window_size a, arg_input_event_dimensions a) r"
    if "p \<in> set built" for p
  proof -
    from map_err_Inr_set[OF built that] obtain i where
      "build_layer a sizes probabilities n (int i) = Inr p" by blast
    then show ?thesis using build_layer_shape[of a sizes probabilities n "int i" "fst p" "snd p"]
      by simp
  qed
  then show "list_all (\<lambda>l. \<exists>u r. l = LSTM u (arg_window_size a, arg_input_event_dimensions a) r)
           (self_lstm_layers m)"
    by (simp add: m list_all_iff)
qed

lemma call_binding:
  "bind_music_rnn_args (create_music_rnn_call cfg d) = Inr (bound_by_position cfg d)"
  by (simp add: create_music_rnn_call_def bound_by_position_def)

text \<open>
  Claim C8. \<open>ModelType.create_model\<close> passes six positional arguments, which bind to the
  first six parameters of \<open>MusicRNN.__init__\<close>: \<open>dimensions\<close> to \<open>input_event_dimensions\<close>,
  \<open>config.model.window_size\<close> to \<open>output_event_dimensions\<close>, \<open>lstm_layers_count\<close> to
  \<open>window_size\<close>, \<open>lstm_layer_sizes\<close> to \<open>lstm_layers_count\<close>, \<open>lstm_dropout_probability\<close> to
  \<open>lstm_layer_sizes\<close> and \<open>use_batch_normalization\<close> to \<open>lstm_dropout_probability\<close>, with the
  defaults for the last two parameters. Whenever a model is constructed, its output layer
  has \<open>config.model.window_size\<close> units, its LSTM layers take input of shape
  \<open>(lstm_layers_count, dimensions)\<close>, it has as many LSTM layers as \<open>lstm_layer_sizes\<close> says,
  and batch normalization is on whatever the configuration says.
\<close>

theorem create_model_binds_by_position:
  assumes "create_model cfg = Inr (m, d)"
  shows "get_model_event_dimensions cfg = Inr d
       \<and> bind_music_rnn_args (create_music_rnn_call cfg d) = Inr (bound_by_position cfg d)
       \<and> music_rnn_init (bound_by_position cfg d) = Inr m
       \<and> self_output_layer m = Dense (PInt (model_window_size cfg)) ''softmax''
       \<and> self_lstm_layers_count m = model_lstm_layer_sizes cfg
       \<and> list_all (\<lambda>l. \<exists>u r. l = LSTM u (PInt (model_lstm_layers_count cfg), PInt d) r)
            (self_lstm_layers m)
       \<and> self_dense_layer m = Dense (PInt 256) ''relu''
       \<and> self_normalization_layers m \<noteq> None"
proof -
  from assms have d: "get_model_event_dimensions cfg = Inr d"
    and i: "music_rnn_init (bound_by_position cfg d) = Inr m"
    by (auto simp: create_model_def call_binding bind_err_def split: sum.splits)
  note f = music_rnn_init_fields[OF i]
  show ?thesis
    using d i f by (simp add: call_binding bound_by_position_def truthy_def)
qed

lemma example_create_model:
  "create_model example_config_file =
     Inr (\<lparr>self_lstm_layers_count = PInt 2,
           self_lstm_layers = [LSTM (PFloat (1 / 2)) (PInt 3, PInt 1288) True,
                               LSTM (PFloat (1 / 2)) (PInt 3, PInt 1288) False],
           self_dropout_layers = [Dropout (PBool False), Dropout (PBool False)],
           self_normalization_layers = Some [BatchNormalization, BatchNormalization],
           self_dense_layer = Dense (PInt 256) ''relu'',
           self_output_layer = Dense (PInt 64) ''softmax''\<rparr>, 1288)"
  by code_simp

theorem create_model_binds_by_position_witness:
  "create_model example_config_file =
     Inr (\<lparr>self_lstm_layers_count = PInt 2,
           self_lstm_layers = [LSTM (PFloat (1 / 2)) (PInt 3, PInt 1288) True,
                               LSTM (PFloat (1 / 2)) (PInt 3, PInt 1288) False],
           self_dropout_layers = [Dropout (PBool False), Dropout (PBool False)],
           self_normalization_layers = Some [BatchNormalization, BatchNormalization],
           self_dense_layer = Dense (PInt 256) ''relu'',
           self_output_layer = Dense (PInt 64) ''softmax''\<rparr>, 1288)
   \<and> get_model_event_dimensions example_config_file = Inr 1288
   \<and> model_window_size example_config_file = 64
   \<and> arg_output_event_dimensions (bound_by_position example_config_file 1288) = PInt 64
   \<and> arg_window_size (bound_by_position example_config_file 1288) = PInt 3
   \<and> arg_lstm_layers_count (bound_by_position example_config_file 1288) = PInt 2
   \<and> arg_lstm_layer_sizes (bound_by_position example_config_file 1288) = PFloat (1 / 2)
   \<and> arg_lstm_dropout_probability (bound_by_position example_config_file 1288) = PBool False"
  using create_model_binds_by_position[OF example_create_model] example_create_model
  by (simp add: bound_by_position_def example_config_file_def)

section \<open>Properties of the commands\<close>

lemma model_type_undefined:
  "read_name preprocess_parameters preprocess_locals module_globals ''model_type''
     = Inl (NameError ''model_type'')"
  by (simp add: read_name_def preprocess_parameters_def preprocess_locals_def module_globals_def)

lemma get_default_config_defined:
  "read_name preprocess_parameters preprocess_locals module_globals ''get_default_config'' = Inr ()"
  by (simp add: read_name_def preprocess_parameters_def preprocess_locals_def module_globals_def)

lemma preprocess_config_path_cases:
  "preprocess_config_path w None = Inl (NameError ''model_type'')"
  "preprocess_config_path w (Some []) = Inl (NameError ''model_type'')"
  "p \<noteq> [] \<Longrightarrow> preprocess_config_path w (Some p) = Inr p"
  by (simp_all add: preprocess_config_path_def or_default_def model_type_undefined
      get_default_config_defined)



text \<open>
  Claim C9. Every invocation of \<open>preprocess\<close> without a \<open>--config\<close> path raises
  \<open>NameError\<close> for \<open>model_type\<close> before anything else happens: no configuration is loaded
  and no conversion is started. With a \<open>--config\<close> path (a non-empty string, since \<open>or\<close>
  treats the empty string like an absent value) the default branch is not evaluated and
  the command goes on to load that configuration.
\<close>

theorem preprocess_without_config_raises_NameError:
  "(pp_config_filepath a = None \<longrightarrow>
      preprocess w st a = (Inl (NameError ''model_type''), []))
   \<and> (\<forall>p. pp_config_filepath a = Some p \<and> p \<noteq> [] \<longrightarrow>
          preprocess_config_path w (pp_config_filepath a) = Inr p
          \<and> (\<exists>r tr. preprocess w st a = (r, Load_config p # tr)))"
proof -
  have a: "preprocess w st a = (Inl (NameError ''model_type''), [])"
    if "pp_config_filepath a = None"
    using that by (simp add: preprocess_def preprocess_config_path_cases)
  have b: "preprocess_config_path w (pp_config_filepath a) = Inr p
           \<and> (\<exists>r tr. preprocess w st a = (r, Load_config p # tr))"
    if "pp_config_filepath a = Some p" "p \<noteq> []" for p
    using that
    by (simp add: preprocess_def preprocess_config_path_cases Let_def
        split: sum.splits option.splits prod.splits)
  show ?thesis using a b by blast
qed

theorem preprocess_without_config_raises_NameError_witness:
  "pp_config_filepath (example_preprocess_args\<lparr>pp_config_filepath := None\<rparr>) = None
   \<and> preprocess example_world (example_state 7) (example_preprocess_args\<lparr>pp_config_filepath := None\<rparr>)
       = (Inl (NameError ''model_type''), [])
   \<and> pp_config_filepath example_preprocess_args = Some ''configs/music_rnn.yml''
   \<and> ''configs/music_rnn.yml'' \<noteq> []
   \<and> preprocess_config_path example_world (pp_config_filepath example_preprocess_args)
       = Inr ''configs/music_rnn.yml''
   \<and> (\<exists>r tr. preprocess example_world (example_state 7) example_preprocess_args
               = (r, Load_config ''configs/music_rnn.yml'' # tr))"
proof -
  have n: "pp_config_filepath (example_preprocess_args\<lparr>pp_config_filepath := None\<rparr>) = None"
    by simp
  have s: "pp_config_filepath example_preprocess_args = Some ''configs/music_rnn.yml''"
    by (simp add: example_preprocess_args_def)
  from preprocess_without_config_raises_NameError
         [of "example_preprocess_args\<lparr>pp_config_filepath := None\<rparr>" example_world "example_state 7"] n
  have 1: "preprocess example_world (example_state 7) (example_preprocess_args\<lparr>pp_config_filepath := None\<rparr>)
       = (Inl (NameError ''model_type''), [])" by blast
  from preprocess_without_config_raises_NameError
         [of example_preprocess_args example_world "example_state 7"] s
  have 2: "preprocess_config_path example_world (pp_config_filepath example_preprocess_args)
             = Inr ''configs/music_rnn.yml''
          \<and> (\<exists>r tr. preprocess example_world (example_state 7) example_preprocess_args
               = (r, Load_config ''configs/music_rnn.yml'' # tr))"
    by fastforce
  show ?thesis using n s 1 2 by simp
qed







lemma example_preprocess:
  "preprocess example_world st example_preprocess_args =
     (Inr (),
      [Load_config ''configs/music_rnn.yml'',
       Split_dataset example_config_file ''raw'' ''out'' (3 / 10) False (1 / 2) 16,
       Write_json ''out/metadata.json''
         (metadata_of example_world (rng_state st) example_preprocess_args),
       Copy_file ''configs/music_rnn.yml'' ''out/config.yml''])"
  by (simp add: preprocess_def preprocess_config_path_cases Let_def example_preprocess_args_def
      example_world_def conversion_call_def path_join_def example_config_file_def)



lemma cli_ignores_seed: "cli w st verbosity seed = set_verbosity_level w st verbosity"
  by (simp add: cli_def Let_def)

lemma upper_INFO: "upper ''INFO'' = ''INFO''"
  by code_simp

lemma example_cli:
  "cli example_world (example_state entropy) ''INFO'' seed
     = Inr \<lparr>rng_state = MT19937 entropy [] 624, root_log_level = Some 20\<rparr>"
  by (simp add: cli_ignores_seed set_verbosity_level_def upper_INFO example_world_def example_state_def)

text \<open>
  Claim C5 asks that the seed given to the command line fix the state of the random
  generator before any draw. The group callback never gives the seed to the generator:
  its result does not depend on the seed, so two runs with \<open>--seed 42\<close> over the same
  corpus, started with generator states 1 and 2, hand \<open>split_dataset\<close> the generator in
  states 1 and 2 and record the seeds 1 and 2 in their manifests.
\<close>

theorem seed_does_not_reach_generator:
  "cli example_world (example_state 1) ''INFO'' (Some 42)
     = Inr \<lparr>rng_state = MT19937 1 [] 624, root_log_level = Some 20\<rparr>
   \<and> cli example_world (example_state 2) ''INFO'' (Some 42)
     = Inr \<lparr>rng_state = MT19937 2 [] 624, root_log_level = Some 20\<rparr>
   \<and> run_preprocess example_world (example_state 1) ''INFO'' (Some 42) example_preprocess_args
     = (Inr (),
        [Load_config ''configs/music_rnn.yml'',
         Split_dataset example_config_file ''raw'' ''out'' (3 / 10) False (1 / 2) 16,
         Write_json ''out/metadata.json''
           (metadata_of example_world (MT19937 1 [] 624) example_preprocess_args),
         Copy_file ''configs/music_rnn.yml'' ''out/config.yml''])
   \<and> run_preprocess example_world (example_state 2) ''INFO'' (Some 42) example_preprocess_args
     = (Inr (),
        [Load_config ''configs/music_rnn.yml'',
         Split_dataset example_config_file ''raw'' ''out'' (3 / 10) False (1 / 2) 16,
         Write_json ''out/metadata.json''
           (metadata_of example_world (MT19937 2 [] 624) example_preprocess_args),
         Copy_file ''configs/music_rnn.yml'' ''out/config.yml''])
   \<and> map_of (metadata_of example_world (MT19937 1 [] 624) example_preprocess_args) ''seed''
       = Some (JInt 1)
   \<and> map_of (metadata_of example_world (MT19937 2 [] 624) example_preprocess_args) ''seed''
       = Some (JInt 2)
   \<and> (\<forall>w st verbosity seed seed'. cli w st verbosity seed = cli w st verbosity seed')"
proof -
  have run: "run_preprocess example_world (example_state entropy) ''INFO'' (Some 42)
               example_preprocess_args
     = (Inr (),
        [Load_config ''configs/music_rnn.yml'',
         Split_dataset example_config_file ''raw'' ''out'' (3 / 10) False (1 / 2) 16,
         Write_json ''out/metadata.json''
           (metadata_of example_world (MT19937 entropy [] 624) example_preprocess_args),
         Copy_file ''configs/music_rnn.yml'' ''out/config.yml''])" for entropy
    by (simp add: run_preprocess_def example_cli example_preprocess)
  have seed: "map_of (metadata_of example_world (MT19937 entropy [] 624) example_preprocess_args)
                ''seed'' = Some (JInt entropy)" for entropy
    by (simp add: metadata_of_def)
  have indep: "cli w st verbosity seed = cli w st verbosity seed'" for w st verbosity seed seed'
    by (simp add: cli_ignores_seed)
  show ?thesis
    using example_cli[of 1 "Some 42"] example_cli[of 2 "Some 42"] run[of 1] run[of 2]
      seed[of 1] seed[of 2] indep
    by blast
qed

end
